theory Spec2Isabelle
  imports Main "HOL-Library.Sublist"
begin

section \<open>Tenant context (communication/db\_router.py)\<close>

text \<open>
  The module keeps the current tenant twice: in a \<^verbatim>\<open>ContextVar\<close> whose default is
  \<^verbatim>\<open>None\<close> and in a thread-local attribute \<^verbatim>\<open>tenant_id\<close> that is read with
  \<^verbatim>\<open>getattr(_, 'tenant_id', None)\<close>. Both are modelled as \<open>string option\<close>; an
  absent thread-local attribute and one holding \<^verbatim>\<open>None\<close> read the same.
\<close>

record tenant_ctx =
  current_tenant :: "string option"
  thread_local_tenant :: "string option"

definition unbound_ctx :: tenant_ctx where
  "unbound_ctx = \<lparr>current_tenant = None, thread_local_tenant = None\<rparr>"

definition set_current_tenant :: "string option \<Rightarrow> tenant_ctx \<Rightarrow> tenant_ctx" where
  "set_current_tenant tenant_id c =
     c\<lparr>current_tenant := tenant_id, thread_local_tenant := tenant_id\<rparr>"

definition get_current_tenant :: "tenant_ctx \<Rightarrow> string option" where
  "get_current_tenant c =
     (case current_tenant c of
        Some tenant_id \<Rightarrow> Some tenant_id
      | None \<Rightarrow> thread_local_tenant c)"

section \<open>MultiTenantDatabaseRouter (communication/db\_router.py)\<close>

definition master_apps :: "string set" where
  "master_apps = {''auth'', ''admin'', ''contenttypes'', ''sessions'', ''config'', ''messages''}"

definition postgres_main_apps :: "string set" where
  "postgres_main_apps = {''databases''}"

definition tenant_apps :: "string set" where
  "tenant_apps = {''api'', ''communicationapp''}"

text \<open>
  \<^verbatim>\<open>**hints\<close> is a keyword dictionary; only its key \<^verbatim>\<open>tenant_db\<close> is read. It is an
  association list here, so that \<^verbatim>\<open>if hints:\<close> is the test for the empty list. Python's
  truth test on a string is the test against the empty string.
\<close>

type_synonym hints = "(string \<times> string) list"

definition get_tenant_db :: "tenant_ctx \<Rightarrow> hints \<Rightarrow> string option" where
  "get_tenant_db c hints =
     (let from_hints =
        (if hints \<noteq> [] then
           (case map_of hints ''tenant_db'' of
              Some tenant_db \<Rightarrow> if tenant_db \<noteq> [] then Some tenant_db else None
            | None \<Rightarrow> None)
         else None)
      in case from_hints of
           Some tenant_db \<Rightarrow> Some tenant_db
         | None \<Rightarrow>
             (case get_current_tenant c of
                Some tenant_id \<Rightarrow>
                  if tenant_id \<noteq> [] \<and> tenant_id \<noteq> ''default''
                  then Some (''client_'' @ tenant_id) else None
              | None \<Rightarrow> None))"

text \<open>A model is represented by its \<^verbatim>\<open>_meta.app_label\<close>, the only thing the router reads.\<close>

definition db_for_read :: "tenant_ctx \<Rightarrow> string \<Rightarrow> hints \<Rightarrow> string" where
  "db_for_read c app_label hints =
     (if app_label \<in> master_apps then ''default''
      else if app_label \<in> postgres_main_apps then ''postgres_main''
      else if app_label \<in> tenant_apps then
        (case get_tenant_db c hints of
           Some tenant_db \<Rightarrow> tenant_db
         | None \<Rightarrow> ''default'')
      else ''default'')"

definition db_for_write :: "tenant_ctx \<Rightarrow> string \<Rightarrow> hints \<Rightarrow> string" where
  "db_for_write c app_label hints =
     (if app_label \<in> master_apps then ''default''
      else if app_label \<in> postgres_main_apps then ''postgres_main''
      else if app_label \<in> tenant_apps then
        (case get_tenant_db c hints of
           Some tenant_db \<Rightarrow> tenant_db
         | None \<Rightarrow> ''default'')
      else ''default'')"

definition allow_migrate :: "string \<Rightarrow> string \<Rightarrow> bool" where
  "allow_migrate db app_label =
     (if app_label \<in> master_apps then db = ''default''
      else if app_label \<in> postgres_main_apps then db = ''postgres_main''
      else if app_label \<in> tenant_apps then
        (if db = ''default'' then False else prefix ''client_'' db)
      else db = ''default'')"

section \<open>Credential vault (api/utils.py, communicationapp/utils.py)\<close>

text \<open>
  The \<^verbatim>\<open>cryptography\<close> package and Python's text codec are not part of the
  repository. They enter as a record of operations: \<open>valid_key\<close> says whether
  \<^verbatim>\<open>Fernet(key)\<close> accepts the key (it raises otherwise), \<open>fernet_encrypt\<close> takes the
  key, the entropy of the call (time stamp and initialisation vector) and the data,
  \<open>fernet_decrypt\<close> is None where \<^verbatim>\<open>decrypt\<close> raises \<^verbatim>\<open>InvalidToken\<close>,
  \<open>generate_key\<close> is \<^verbatim>\<open>Fernet.generate_key()\<close>, and \<open>str_encode\<close> and
  \<open>bytes_decode\<close> are \<^verbatim>\<open>str.encode()\<close> and \<^verbatim>\<open>bytes.decode()\<close>, None where they
  raise. \<open>exception_text\<close> is \<^verbatim>\<open>str(e)\<close> of the exception that
  \<^verbatim>\<open>Fernet(key.encode()).decrypt(text.encode()).decode()\<close> raises for a key and a text
  (for \<^verbatim>\<open>InvalidToken\<close> it is empty). Text and bytes are both \<open>string\<close>.
\<close>

record fernet_lib =
  valid_key :: "string \<Rightarrow> bool"
  fernet_encrypt :: "string \<Rightarrow> nat \<Rightarrow> string \<Rightarrow> string"
  fernet_decrypt :: "string \<Rightarrow> string \<Rightarrow> string option"
  generate_key :: "nat \<Rightarrow> string"
  str_encode :: "string \<Rightarrow> string option"
  bytes_decode :: "string \<Rightarrow> string option"
  exception_text :: "string \<Rightarrow> string \<Rightarrow> string"

text \<open>
  The settings the vault reads. \<open>DB_ENCRYPTION_KEY\<close> is None when the attribute is
  absent (\<^verbatim>\<open>getattr(settings, 'DB_ENCRYPTION_KEY', None)\<close>).
\<close>

record settings =
  DB_ENCRYPTION_KEY :: "string option"
  SECRET_KEY :: string
  TIME_ZONE :: "string option"

text \<open>\<^verbatim>\<open>get_encryption_key\<close>: None where \<^verbatim>\<open>key.encode()\<close> raises.\<close>

definition get_encryption_key :: "fernet_lib \<Rightarrow> settings \<Rightarrow> nat \<Rightarrow> string option" where
  "get_encryption_key L S entropy =
     (case DB_ENCRYPTION_KEY S of
        Some key \<Rightarrow> if key \<noteq> [] then str_encode L key else Some (generate_key L entropy)
      | None \<Rightarrow> Some (generate_key L entropy))"

text \<open>
  \<^verbatim>\<open>encrypt_password\<close> (api/utils.py): every exception inside the \<^verbatim>\<open>try\<close> ends in
  \<^verbatim>\<open>return password\<close>.
\<close>

definition encrypt_password :: "fernet_lib \<Rightarrow> settings \<Rightarrow> nat \<Rightarrow> string \<Rightarrow> string" where
  "encrypt_password L S entropy password =
     (case get_encryption_key L S entropy of
        None \<Rightarrow> password
      | Some key \<Rightarrow>
          if \<not> valid_key L key then password
          else (case str_encode L password of
                  None \<Rightarrow> password
                | Some data \<Rightarrow>
                    (case bytes_decode L (fernet_encrypt L key entropy data) of
                       None \<Rightarrow> password
                     | Some encrypted_password \<Rightarrow> encrypted_password)))"

text \<open>
  The expression \<^verbatim>\<open>Fernet(key).decrypt(text.encode()).decode()\<close>, which both branches
  of \<^verbatim>\<open>decrypt_password\<close> and the function of communicationapp/utils.py evaluate; None
  where any step raises.
\<close>

definition fernet_decrypt_text :: "fernet_lib \<Rightarrow> string \<Rightarrow> string \<Rightarrow> string option" where
  "fernet_decrypt_text L key text =
     (if \<not> valid_key L key then None
      else (case str_encode L text of
              None \<Rightarrow> None
            | Some token \<Rightarrow>
                (case fernet_decrypt L key token of
                   None \<Rightarrow> None
                 | Some data \<Rightarrow> bytes_decode L data)))"

text \<open>
  \<^verbatim>\<open>decrypt_password\<close> (api/utils.py). The argument is a \<^verbatim>\<open>str\<close>, so the
  \<^verbatim>\<open>isinstance\<close> test holds; the \<^verbatim>\<open>except\<close> clause returns the argument.
\<close>

definition decrypt_password :: "fernet_lib \<Rightarrow> settings \<Rightarrow> string \<Rightarrow> string" where
  "decrypt_password L S encrypted_password =
     (case (case DB_ENCRYPTION_KEY S of
              Some key \<Rightarrow> if key \<noteq> [] then Some key else None
            | None \<Rightarrow> None) of
        Some key \<Rightarrow>
          (case str_encode L key of
             None \<Rightarrow> encrypted_password
           | Some key_bytes \<Rightarrow>
               (case fernet_decrypt_text L key_bytes encrypted_password of
                  None \<Rightarrow> encrypted_password
                | Some decrypted_password \<Rightarrow> decrypted_password))
      | None \<Rightarrow>
          (case str_encode L (take 32 (SECRET_KEY S)) of
             None \<Rightarrow> encrypted_password
           | Some key_bytes \<Rightarrow>
               (case fernet_decrypt_text L key_bytes encrypted_password of
                  None \<Rightarrow> encrypted_password
                | Some decrypted_password \<Rightarrow> decrypted_password)))"

datatype error =
  RuntimeError string
| ValueError string
| DatabaseError string
| IntegrityError string
| DataError string

text \<open>\<^verbatim>\<open>str(e)\<close> of an exception.\<close>

definition error_text :: "error \<Rightarrow> string" where
  "error_text e =
     (case e of
        RuntimeError m \<Rightarrow> m
      | ValueError m \<Rightarrow> m
      | DatabaseError m \<Rightarrow> m
      | IntegrityError m \<Rightarrow> m
      | DataError m \<Rightarrow> m)"

text \<open>
  \<^verbatim>\<open>decrypt_password\<close> of communicationapp/utils.py; its key is the module constant
  \<^verbatim>\<open>DB_ENCRYPTION_KEY\<close> (an environment variable, stripped). Every exception inside
  the \<^verbatim>\<open>try\<close> is raised again as \<^verbatim>\<open>RuntimeError(f"Fernet decrypt failed: {e}")\<close>.
\<close>

definition communicationapp_decrypt_password ::
  "fernet_lib \<Rightarrow> string \<Rightarrow> string \<Rightarrow> error + string" where
  "communicationapp_decrypt_password L env_key enc_password =
     (if env_key = [] then
        Inl (RuntimeError ''DB_ENCRYPTION_KEY not set; cannot decrypt db_password_encrypted'')
      else (case str_encode L env_key of
              None \<Rightarrow>
                Inl (RuntimeError
                       (''Fernet decrypt failed: '' @ exception_text L env_key enc_password))
            | Some key_bytes \<Rightarrow>
                (case fernet_decrypt_text L key_bytes enc_password of
                   None \<Rightarrow>
                     Inl (RuntimeError
                            (''Fernet decrypt failed: '' @ exception_text L env_key enc_password))
                 | Some password \<Rightarrow> Inr password)))"

text \<open>
  A small cipher with the interface above, to run the vault on concrete inputs: a key is
  valid when it has 44 characters (the length of a Fernet key), a token is a fixed header,
  the key and the data, and decryption accepts exactly the tokens made with its key.
\<close>

definition demo_fernet :: fernet_lib where
  "demo_fernet =
     \<lparr>valid_key = (\<lambda>key. length key = 44),
      fernet_encrypt = (\<lambda>key entropy data. ''gAAAAA'' @ key @ data),
      fernet_decrypt = (\<lambda>key token.
         if prefix (''gAAAAA'' @ key) token then Some (drop (6 + length key) token) else None),
      generate_key = (\<lambda>entropy. replicate 44 (CHR ''A'')),
      str_encode = Some,
      bytes_decode = Some,
      exception_text = (\<lambda>key text. [])\<rparr>"

definition demo_settings :: settings where
  "demo_settings =
     \<lparr>DB_ENCRYPTION_KEY = Some ''MDEyMzQ1Njc4OWFiY2RlZjAxMjM0NTY3ODlhYmNkZWY='',
      SECRET_KEY = ''django-insecure-secret-key-of-the-demo-site'',
      TIME_ZONE = Some ''UTC''\<rparr>"

text \<open>
  What the library promises and the round trip rests on: decryption undoes encryption
  under a valid key, decoding undoes encoding, and a token is text that encodes back to
  itself (Fernet tokens are URL-safe base64).
\<close>

definition fernet_laws :: "fernet_lib \<Rightarrow> bool" where
  "fernet_laws L \<longleftrightarrow>
     (\<forall>key entropy data. valid_key L key \<longrightarrow>
        fernet_decrypt L key (fernet_encrypt L key entropy data) = Some data)
   \<and> (\<forall>text data. str_encode L text = Some data \<longrightarrow> bytes_decode L data = Some text)
   \<and> (\<forall>key entropy data. valid_key L key \<longrightarrow>
        (\<exists>token. bytes_decode L (fernet_encrypt L key entropy data) = Some token
               \<and> str_encode L token = Some (fernet_encrypt L key entropy data)))"

section \<open>UserDatabase and soft deletion (config/models.py)\<close>

text \<open>
  A \<^verbatim>\<open>UserDatabase\<close> instance. \<open>pk\<close> is Django's \<^verbatim>\<open>id\<close>, None on an instance
  that was never saved; times are natural numbers.
\<close>

record UserDatabase =
  pk :: "nat option"
  user_id :: int
  username :: "string option"
  db_name :: string
  db_user :: string
  db_password :: string
  db_host :: string
  db_port :: string
  db_type :: string
  is_deleted :: bool
  deleted_at :: "nat option"

text \<open>
  The table is the list of its rows with the next value of the key. The model has no
  custom manager, so \<^verbatim>\<open>UserDatabase.objects\<close> sees every row, also the soft-deleted.
\<close>

record table =
  table_rows :: "UserDatabase list"
  next_pk :: nat

text \<open>
  \<^verbatim>\<open>save(update_fields=["is_deleted", "deleted_at"])\<close>: an UPDATE of the two columns of
  the row with the instance's key. Django raises ValueError without a key and
  DatabaseError when the UPDATE touches no row.
\<close>

definition save_update_fields :: "UserDatabase \<Rightarrow> table \<Rightarrow> error + table" where
  "save_update_fields self t =
     (case pk self of
        None \<Rightarrow> Inl (ValueError ''Cannot force an update in save() with no primary key.'')
      | Some i \<Rightarrow>
          if filter (\<lambda>r. pk r = Some i) (table_rows t) = [] then
            Inl (DatabaseError ''Save with update_fields did not affect any rows.'')
          else
            Inr (t\<lparr>table_rows :=
                   map (\<lambda>r. if pk r = Some i
                             then r\<lparr>is_deleted := is_deleted self, deleted_at := deleted_at self\<rparr>
                             else r)
                       (table_rows t)\<rparr>))"

text \<open>
  \<^verbatim>\<open>SoftDeleteModel.delete\<close>. The first argument is \<^verbatim>\<open>timezone.now()\<close>. The instance
  is changed in memory before \<^verbatim>\<open>save\<close> runs, so it is returned changed also when
  \<^verbatim>\<open>save\<close> raises.
\<close>

definition delete :: "nat \<Rightarrow> UserDatabase \<Rightarrow> table \<Rightarrow> UserDatabase \<times> (error + table)" where
  "delete now self t =
     (let self' = self\<lparr>is_deleted := True, deleted_at := Some now\<rparr>
      in (self', save_update_fields self' t))"

text \<open>
  \<^verbatim>\<open>SoftDeleteModel.hard_delete\<close>, that is Django's \<^verbatim>\<open>Model.delete\<close>: the rows with
  the instance's key are removed and the instance loses its key. No model of the
  repository refers to \<^verbatim>\<open>UserDatabase\<close>, so nothing cascades.
\<close>

definition hard_delete :: "UserDatabase \<Rightarrow> table \<Rightarrow> error + UserDatabase \<times> table" where
  "hard_delete self t =
     (case pk self of
        None \<Rightarrow> Inl (ValueError ''UserDatabase object can't be deleted because its id attribute is set to None.'')
      | Some i \<Rightarrow>
          Inr (self\<lparr>pk := None\<rparr>,
               t\<lparr>table_rows := filter (\<lambda>r. pk r \<noteq> Some i) (table_rows t)\<rparr>))"

section \<open>Registration (api/utils.py, api/views.py)\<close>

text \<open>Python's \<^verbatim>\<open>str\<close> of an integer, for \<^verbatim>\<open>f"client_{user_id}"\<close>.\<close>

function str_of_nat :: "nat \<Rightarrow> string" where
  "str_of_nat n =
     (if n < 10 then [''0123456789'' ! n]
      else str_of_nat (n div 10) @ [''0123456789'' ! (n mod 10)])"
  by pat_completeness auto
termination
  by (relation "measure id") auto

declare str_of_nat.simps [simp del]

definition py_str :: "int \<Rightarrow> string" where
  "py_str i = (if i < 0 then CHR ''-'' # str_of_nat (nat (- i)) else str_of_nat (nat i))"

text \<open>One entry of \<^verbatim>\<open>settings.DATABASES\<close>, as \<^verbatim>\<open>add_db_alias\<close> builds it.\<close>

record db_config =
  ENGINE :: string
  NAME :: string
  USER :: string
  PASSWORD :: string
  HOST :: string
  PORT :: int
  CFG_TIME_ZONE :: "string option"
  CONN_MAX_AGE :: nat
  CONN_HEALTH_CHECKS :: bool
  AUTOCOMMIT :: bool
  connect_timeout :: nat

text \<open>
  The mutable state a registration touches: the \<^verbatim>\<open>UserDatabase\<close> table and the two
  dictionaries \<^verbatim>\<open>settings.DATABASES\<close> and \<^verbatim>\<open>connections.databases\<close>.
\<close>

record site =
  user_databases :: table
  DATABASES :: "string \<rightharpoonup> db_config"
  connections_databases :: "string \<rightharpoonup> db_config"

text \<open>
  What lies outside the repository and decides a registration: name resolution, the
  \<^verbatim>\<open>psycopg2\<close> connection attempt, Python's \<^verbatim>\<open>int\<close> on a string (the text of its
  ValueError where it raises), the \<^verbatim>\<open>migrate\<close> command (the message of the exception
  it raises, None when it returns), the clock, the database's \<^verbatim>\<open>LOWER\<close>, and the
  range of an integer column of the database that holds the table (an INSERT of a value
  outside it raises).
\<close>

datatype connect_result = Connected | Psycopg2Error string | OtherException string

record env =
  gethostbyname :: "string \<Rightarrow> bool"
  psycopg2_connect :: "string \<Rightarrow> string \<Rightarrow> string \<Rightarrow> string \<Rightarrow> int \<Rightarrow> connect_result"
  py_int :: "string \<Rightarrow> string + int"
  migrate :: "string \<Rightarrow> string option"
  timezone_now :: nat
  db_lower :: "string \<Rightarrow> string"
  integer_in_range :: "int \<Rightarrow> bool"

text \<open>
  \<^verbatim>\<open>test_db_connection\<close> (api/utils.py), called with individual parameters and the port
  as a string: it never raises.
\<close>

definition test_db_connection ::
  "env \<Rightarrow> string \<Rightarrow> string \<Rightarrow> string \<Rightarrow> string \<Rightarrow> string \<Rightarrow> bool \<times> string" where
  "test_db_connection E name user password host port =
     (case py_int E port of
        Inl e \<Rightarrow> (False, ''Connection failed: '' @ e)
      | Inr port_int \<Rightarrow>
          (case psycopg2_connect E name user password host port_int of
             Connected \<Rightarrow> (True, ''Connection successful'')
           | Psycopg2Error e \<Rightarrow> (False, e)
           | OtherException e \<Rightarrow> (False, ''Connection failed: '' @ e)))"

text \<open>\<^verbatim>\<open>add_db_alias\<close> (api/utils.py), called with individual parameters.\<close>

definition add_db_alias ::
  "settings \<Rightarrow> env \<Rightarrow> string \<Rightarrow> string \<Rightarrow> string \<Rightarrow> string \<Rightarrow> string \<Rightarrow> string
     \<Rightarrow> site \<Rightarrow> error + site" where
  "add_db_alias S E alias name user password host port w =
     (case py_int E port of
        Inl e \<Rightarrow> Inl (ValueError e)
      | Inr port_int \<Rightarrow>
          (let cfg = \<lparr>ENGINE = ''django.db.backends.postgresql'', NAME = name, USER = user,
                      PASSWORD = password, HOST = host, PORT = port_int,
                      CFG_TIME_ZONE = TIME_ZONE S, CONN_MAX_AGE = 60,
                      CONN_HEALTH_CHECKS = True, AUTOCOMMIT = True, connect_timeout = 10\<rparr>
           in Inr (w\<lparr>DATABASES := (DATABASES w)(alias \<mapsto> cfg),
                     connections_databases := (connections_databases w)(alias \<mapsto> cfg)\<rparr>)))"

text \<open>
  \<^verbatim>\<open>UserDatabase.objects.create\<close>: the INSERT fails when \<^verbatim>\<open>user_id\<close> (an
  \<^verbatim>\<open>IntegerField\<close>, unbounded in the serializer) is outside the range of the column, and
  with IntegrityError when the user name is taken (\<^verbatim>\<open>unique=True\<close> and the unique
  constraint on \<^verbatim>\<open>Lower("username")\<close>; NULL conflicts with nothing).
\<close>

definition create :: "env \<Rightarrow> UserDatabase \<Rightarrow> table \<Rightarrow> error + UserDatabase \<times> table" where
  "create E kwargs t =
     (if \<not> integer_in_range E (user_id kwargs) then Inl (DataError ''integer out of range'')
      else if (case username kwargs of
            None \<Rightarrow> False
          | Some u \<Rightarrow>
              filter (\<lambda>r. case username r of
                             None \<Rightarrow> False
                           | Some u' \<Rightarrow> db_lower E u' = db_lower E u) (table_rows t) \<noteq> [])
      then Inl (IntegrityError ''duplicate key value violates unique constraint'')
      else (let entry = kwargs\<lparr>pk := Some (next_pk t)\<rparr>
            in Inr (entry, t\<lparr>table_rows := table_rows t @ [entry], next_pk := Suc (next_pk t)\<rparr>)))"

text \<open>
  The validated data of \<^verbatim>\<open>UserDatabaseSerializer\<close>. The serializer's defaults fill
  \<open>d_db_host\<close>, \<open>d_db_port\<close> and \<open>d_db_type\<close>; only \<open>d_username\<close> can be missing.
\<close>

record validated_data =
  d_user_id :: int
  d_username :: "string option"
  d_db_name :: string
  d_db_user :: string
  d_db_password :: string
  d_db_host :: string
  d_db_port :: string
  d_db_type :: string

datatype body =
  Errors "string list"
| Detail string
| Registered string string

text \<open>What \<^verbatim>\<open>post\<close> ends in: a response with its status, or an exception that leaves it.\<close>

datatype outcome = Response nat body | Raised error

text \<open>
  The \<^verbatim>\<open>except\<close> block of \<^verbatim>\<open>RegisterDBAPIView.post\<close> (the cleanup), with the message of
  the caught exception.
\<close>

definition post_cleanup ::
  "env \<Rightarrow> string \<Rightarrow> UserDatabase \<Rightarrow> string \<Rightarrow> site \<Rightarrow> outcome \<times> site" where
  "post_cleanup E db_alias entry msg w =
     (case snd (delete (timezone_now E) entry (user_databases w)) of
        Inl e \<Rightarrow> (Raised e, w)
      | Inr t \<Rightarrow>
          (Response 500 (Detail (''Migration failed: '' @ msg)),
           w\<lparr>user_databases := t,
             DATABASES := (DATABASES w)(db_alias := None),
             connections_databases := (connections_databases w)(db_alias := None)\<rparr>))"

text \<open>
  \<^verbatim>\<open>RegisterDBAPIView.post\<close> (api/views.py). The first argument after the
  environment is what \<^verbatim>\<open>ser.is_valid()\<close> left: the errors or the validated data.
  \<^verbatim>\<open>decrypt_password\<close> never raises, so the \<^verbatim>\<open>except\<close> around it is never entered.
  The \<^verbatim>\<open>showmigrations\<close> call and the closing of the connection in \<^verbatim>\<open>finally\<close> swallow
  their exceptions and change none of the state modelled here.
\<close>

definition post ::
  "fernet_lib \<Rightarrow> settings \<Rightarrow> env \<Rightarrow> string list + validated_data \<Rightarrow> site \<Rightarrow> outcome \<times> site" where
  "post L S E ser w =
     (case ser of
        Inl errors \<Rightarrow> (Response 400 (Errors errors), w)
      | Inr d \<Rightarrow>
          (let uid = d_user_id d;
               db_alias = ''client_'' @ py_str uid
           in if filter (\<lambda>r. user_id r = uid) (table_rows (user_databases w)) \<noteq> [] then
                (Response 400
                   (Detail (''DB entry already exists for user_id '' @ py_str uid @ ''.'')), w)
              else if \<not> gethostbyname E (d_db_host d) then
                (Response 400
                   (Detail (''Host '' @ [CHR 0x27] @ d_db_host d @ [CHR 0x27]
                            @ '' is not resolvable.'')), w)
              else
                (let real_pw = decrypt_password L S (d_db_password d);
                     (ok, err) = test_db_connection E (d_db_name d) (d_db_user d) real_pw
                                   (d_db_host d) (d_db_port d)
                 in if \<not> ok then (Response 400 (Detail (''Connect failed: '' @ err)), w)
                    else if DATABASES w db_alias \<noteq> None then
                      (Response 400
                         (Detail (''DB alias '' @ [CHR 0x27] @ db_alias @ [CHR 0x27]
                                  @ '' already exists in settings.'')), w)
                    else
                      (case create E
                              \<lparr>pk = None, user_id = uid, username = d_username d,
                               db_name = d_db_name d, db_user = d_db_user d,
                               db_password = d_db_password d, db_host = d_db_host d,
                               db_port = d_db_port d,
                               db_type = (if d_db_type d \<noteq> [] then d_db_type d
                                          else ''self_hosted''),
                               is_deleted = False, deleted_at = None\<rparr>
                              (user_databases w) of
                         Inl e \<Rightarrow> (Raised e, w)
                       | Inr (entry, t) \<Rightarrow>
                           (let w1 = w\<lparr>user_databases := t\<rparr>
                            in case add_db_alias S E db_alias (d_db_name d) (d_db_user d)
                                      real_pw (d_db_host d) (d_db_port d) w1 of
                                 Inl e \<Rightarrow>
                                   post_cleanup E db_alias entry (error_text e) w1
                               | Inr w2 \<Rightarrow>
                                   (case migrate E db_alias of
                                      Some msg \<Rightarrow> post_cleanup E db_alias entry msg w2
                                    | None \<Rightarrow>
                                        (Response 201
                                           (Registered ''DB registered and API tables migrated.''
                                              db_alias), w2)))))))"

section \<open>Request handling (communication/middleware.py, communicationapp/mixins.py)\<close>

text \<open>
  What \<^verbatim>\<open>process_request\<close> reads of a request (the header \<^verbatim>\<open>X-Tenant\<close>, the query
  parameter \<^verbatim>\<open>tenant\<close>, \<^verbatim>\<open>META["HTTP_X_TENANT"]\<close>) and the two attributes it sets.
\<close>

record request =
  header_X_Tenant :: "string option"
  GET_tenant :: "string option"
  META_HTTP_X_TENANT :: "string option"
  req_tenant_db :: "string option"
  req_tenant_id :: "string option"

text \<open>Python's \<^verbatim>\<open>x or y\<close> with \<^verbatim>\<open>x\<close> a string or None.\<close>

definition py_or :: "string option \<Rightarrow> string \<Rightarrow> string" where
  "py_or x y = (case x of Some s \<Rightarrow> if s \<noteq> [] then s else y | None \<Rightarrow> y)"

definition process_request :: "request \<Rightarrow> tenant_ctx \<Rightarrow> request \<times> tenant_ctx" where
  "process_request req c =
     (let tenant_id =
            py_or (header_X_Tenant req)
              (py_or (GET_tenant req) (py_or (META_HTTP_X_TENANT req) ''default''))
      in (req\<lparr>req_tenant_db :=
                 Some (if tenant_id \<noteq> ''default'' then ''client_'' @ tenant_id else ''default''),
               req_tenant_id := Some tenant_id\<rparr>,
          set_current_tenant (Some tenant_id) c))"

definition process_response :: "request \<Rightarrow> 'r \<Rightarrow> tenant_ctx \<Rightarrow> 'r \<times> tenant_ctx" where
  "process_response req response c = (response, set_current_tenant None c)"

text \<open>
  \<^verbatim>\<open>TenantMiddleware.__call__\<close>. \<open>get_response\<close> is the rest of the handler chain: it
  returns a response or raises, and may itself change the tenant context. Without a
  \<open>get_response\<close> the call returns None.
\<close>

definition TenantMiddleware_call ::
  "(request \<Rightarrow> tenant_ctx \<Rightarrow> (error + 'r) \<times> tenant_ctx) option \<Rightarrow> request \<Rightarrow> tenant_ctx
     \<Rightarrow> (error + 'r option) \<times> tenant_ctx" where
  "TenantMiddleware_call get_response req c =
     (case get_response of
        None \<Rightarrow> (Inr None, c)
      | Some handler \<Rightarrow>
          (let (req', c1) = process_request req c
           in case handler req' c1 of
                (Inl e, c2) \<Rightarrow> (Inl e, c2)
              | (Inr response, c2) \<Rightarrow>
                  (let (response', c3) = process_response req' response c2
                   in (Inr (Some response'), c3))))"

text \<open>
  \<^verbatim>\<open>RouterTenantContextMixin.finalize_response\<close>: the parent's
  \<^verbatim>\<open>finalize_response\<close> inside \<^verbatim>\<open>try\<close>, the clearing in \<^verbatim>\<open>finally\<close>. The mixin
  imports \<^verbatim>\<open>set_current_tenant\<close> from a module \<^verbatim>\<open>vendor_service.db_router\<close> that the
  repository does not hold; the function of communication/db\_router.py stands for it.
\<close>

definition finalize_response ::
  "('r \<Rightarrow> tenant_ctx \<Rightarrow> (error + 'r) \<times> tenant_ctx) \<Rightarrow> 'r \<Rightarrow> tenant_ctx
     \<Rightarrow> (error + 'r) \<times> tenant_ctx" where
  "finalize_response super_finalize_response response c =
     (let (result, c') = super_finalize_response response c
      in (result, set_current_tenant None c'))"

section \<open>A concrete site\<close>

text \<open>
  An environment, a request and an empty site to run the registration on: the host
  \<^verbatim>\<open>db.example.com\<close> resolves, the server accepts the password \<^verbatim>\<open>s3cret\<close>, and
  \<^verbatim>\<open>migrate\<close> fails on the alias \<^verbatim>\<open>client_42\<close> and on no other.
\<close>

definition demo_env :: env where
  "demo_env =
     \<lparr>gethostbyname = (\<lambda>host. host = ''db.example.com''),
      psycopg2_connect = (\<lambda>name user password host port.
         if password = ''s3cret'' then Connected
         else Psycopg2Error ''password authentication failed''),
      py_int = (\<lambda>port.
         if port = ''5432'' then Inr 5432
         else Inl (''invalid literal for int() with base 10: '' @ [CHR 0x27] @ port @ [CHR 0x27])),
      migrate = (\<lambda>alias. if alias = ''client_42'' then Some ''relation already exists''
                          else None),
      timezone_now = 1000,
      db_lower = (\<lambda>u. u),
      integer_in_range = (\<lambda>i. - 2147483648 \<le> i \<and> i \<le> 2147483647)\<rparr>"

definition demo_data :: "int \<Rightarrow> validated_data" where
  "demo_data uid =
     \<lparr>d_user_id = uid, d_username = None, d_db_name = ''tenant'', d_db_user = ''app'',
      d_db_password = ''gAAAAAMDEyMzQ1Njc4OWFiY2RlZjAxMjM0NTY3ODlhYmNkZWY=s3cret'',
      d_db_host = ''db.example.com'', d_db_port = ''5432'', d_db_type = ''self_hosted''\<rparr>"

definition demo_row :: "nat \<Rightarrow> int \<Rightarrow> UserDatabase" where
  "demo_row i uid =
     \<lparr>pk = Some i, user_id = uid, username = None, db_name = ''tenant'', db_user = ''app'',
      db_password = ''gAAAAAMDEyMzQ1Njc4OWFiY2RlZjAxMjM0NTY3ODlhYmNkZWY=s3cret'',
      db_host = ''db.example.com'', db_port = ''5432'', db_type = ''self_hosted'',
      is_deleted = False, deleted_at = None\<rparr>"

definition demo_site :: site where
  "demo_site =
     \<lparr>user_databases = \<lparr>table_rows = [], next_pk = 1\<rparr>,
      DATABASES = Map.empty, connections_databases = Map.empty\<rparr>"

definition demo_request :: request where
  "demo_request =
     \<lparr>header_X_Tenant = Some ''42'', GET_tenant = None, META_HTTP_X_TENANT = None,
      req_tenant_db = None, req_tenant_id = None\<rparr>"

definition demo_table :: table where
  "demo_table = \<lparr>table_rows = [demo_row 1 7, demo_row 2 99], next_pk = 3\<rparr>"

definition demo_site_99 :: site where
  "demo_site_99 = demo_site\<lparr>user_databases := \<lparr>table_rows = [demo_row 1 99], next_pk = 2\<rparr>\<rparr>"

section \<open>Router properties\<close>

lemma tenant_not_master: "app_label \<in> tenant_apps \<Longrightarrow> app_label \<notin> master_apps"
  by (auto simp: tenant_apps_def master_apps_def)

lemma tenant_not_postgres_main:
  "app_label \<in> tenant_apps \<Longrightarrow> app_label \<notin> postgres_main_apps"
  by (auto simp: tenant_apps_def postgres_main_apps_def)

lemma get_set_current_tenant [simp]:
  "get_current_tenant (set_current_tenant t c) = t"
  by (cases t) (simp_all add: get_current_tenant_def set_current_tenant_def)

text \<open>
  C3. A model of a master app (auth, admin, contenttypes, sessions, config, messages) is
  read from and written to the default alias, whatever tenant is bound and whatever the
  hints are.
\<close>

theorem master_apps_route_to_default:
  assumes "app_label \<in> master_apps"
  shows "db_for_read c app_label hints = ''default''
       \<and> db_for_write c app_label hints = ''default''"
  using assms by (simp add: db_for_read_def db_for_write_def)

theorem master_apps_route_to_default_witness:
  "''config'' \<in> master_apps
   \<and> db_for_read (set_current_tenant (Some ''42'') unbound_ctx) ''config''
        [(''tenant_db'', ''client_7'')] = ''default''
   \<and> db_for_write (set_current_tenant (Some ''42'') unbound_ctx) ''config''
        [(''tenant_db'', ''client_7'')] = ''default''"
proof -
  have m: "''config'' \<in> master_apps" by (simp add: master_apps_def)
  from master_apps_route_to_default [OF m] m show ?thesis by simp
qed

text \<open>
  C4. For a tenant-scoped app label, \<open>allow_migrate\<close> is False on the alias
  \<^verbatim>\<open>default\<close>, and it is True only on an alias that starts with \<^verbatim>\<open>client_\<close>.
\<close>

theorem tenant_migrate_never_on_default:
  assumes "app_label \<in> tenant_apps"
  shows "\<not> allow_migrate ''default'' app_label
       \<and> (allow_migrate db app_label \<longrightarrow> prefix ''client_'' db)"
  using assms tenant_not_master [OF assms] tenant_not_postgres_main [OF assms]
  by (simp add: allow_migrate_def)

theorem tenant_migrate_never_on_default_witness:
  "''api'' \<in> tenant_apps
   \<and> \<not> allow_migrate ''default'' ''api''
   \<and> allow_migrate ''client_99'' ''api''
   \<and> prefix ''client_'' ''client_99''"
proof -
  have t: "''api'' \<in> tenant_apps" by (simp add: tenant_apps_def)
  have a: "allow_migrate ''client_99'' ''api''"
    by (simp add: allow_migrate_def master_apps_def postgres_main_apps_def tenant_apps_def)
  from tenant_migrate_never_on_default [OF t, of "''client_99''"] t a show ?thesis by simp
qed

text \<open>
  C9. For every model and every hints value, under every tenant context,
  \<open>db_for_read\<close> and \<open>db_for_write\<close> return the same alias.
\<close>

theorem read_write_same_alias:
  "db_for_read c app_label hints = db_for_write c app_label hints"
  by (simp add: db_for_read_def db_for_write_def)

text \<open>
  C2, as stated, promises the alias \<^verbatim>\<open>client_\<close> followed by the tenant for every bound
  tenant other than \<^verbatim>\<open>default\<close>. \<^verbatim>\<open>_get_tenant_db\<close> tests
  \<^verbatim>\<open>if tenant_id and tenant_id != 'default'\<close>, so a tenant context bound to the empty
  string is routed to \<^verbatim>\<open>default\<close>.
\<close>

theorem empty_tenant_reads_default:
  "''api'' \<in> tenant_apps
   \<and> get_current_tenant (set_current_tenant (Some []) unbound_ctx) = Some []
   \<and> [] \<noteq> ''default''
   \<and> db_for_read (set_current_tenant (Some []) unbound_ctx) ''api'' [] \<noteq> ''client_'' @ []"
  by (simp add: db_for_read_def get_tenant_db_def tenant_apps_def master_apps_def
      postgres_main_apps_def)

text \<open>
  C2, amended. For a model of a tenant-scoped app (api, communicationapp) and no hints,
  \<open>db_for_read\<close> returns \<^verbatim>\<open>client_\<close> followed by the tenant when the tenant context
  is bound to a non-empty string other than \<^verbatim>\<open>default\<close>, and the default alias when
  the context is unbound, empty or \<^verbatim>\<open>default\<close>.
\<close>

theorem tenant_apps_read_alias:
  assumes "app_label \<in> tenant_apps"
  shows "(get_current_tenant c = Some tenant_id \<and> tenant_id \<noteq> [] \<and> tenant_id \<noteq> ''default''
            \<longrightarrow> db_for_read c app_label [] = ''client_'' @ tenant_id)
       \<and> (get_current_tenant c = None \<or> get_current_tenant c = Some []
            \<or> get_current_tenant c = Some ''default''
            \<longrightarrow> db_for_read c app_label [] = ''default'')"
  using tenant_not_master [OF assms] tenant_not_postgres_main [OF assms] assms
  by (auto simp: db_for_read_def get_tenant_db_def)

theorem tenant_apps_read_alias_witness:
  "''api'' \<in> tenant_apps
   \<and> db_for_read (set_current_tenant (Some ''99'') unbound_ctx) ''api'' [] = ''client_99''
   \<and> db_for_read unbound_ctx ''api'' [] = ''default''"
proof -
  have t: "''api'' \<in> tenant_apps" by (simp add: tenant_apps_def)
  have u: "get_current_tenant unbound_ctx = None"
    by (simp add: get_current_tenant_def unbound_ctx_def)
  from tenant_apps_read_alias [OF t, of "set_current_tenant (Some ''99'') unbound_ctx" "''99''"]
    tenant_apps_read_alias [OF t, of unbound_ctx] t u
  show ?thesis by simp
qed

section \<open>Credential vault properties\<close>

lemma demo_fernet_laws: "fernet_laws demo_fernet"
  by (simp add: fernet_laws_def demo_fernet_def)

text \<open>A token made under another key is rejected under the key of \<open>demo_settings\<close>.\<close>

lemma demo_fernet_rejects_foreign_token:
  "fernet_decrypt_text demo_fernet ''MDEyMzQ1Njc4OWFiY2RlZjAxMjM0NTY3ODlhYmNkZWY=''
     ''gAAAAAQUJDREVGR0hJSktMTU5PUFFSU1RVVldYWVphYmNkZWY=s3cret'' = None"
  by (simp add: fernet_decrypt_text_def demo_fernet_def)

lemma decrypt_encrypt_any:
  assumes laws: "fernet_laws L"
    and key: "DB_ENCRYPTION_KEY S = Some key" "key \<noteq> []"
  shows "decrypt_password L S (encrypt_password L S entropy password) = password"
proof (cases "str_encode L key")
  case None
  with key show ?thesis
    by (simp add: decrypt_password_def encrypt_password_def get_encryption_key_def)
next
  case (Some key_bytes)
  note kb = this
  show ?thesis
  proof (cases "valid_key L key_bytes")
    case False
    with key kb show ?thesis
      by (simp add: decrypt_password_def encrypt_password_def get_encryption_key_def
          fernet_decrypt_text_def)
  next
    case True
    note valid = this
    show ?thesis
    proof (cases "str_encode L password")
      case None
      with key kb valid show ?thesis
        by (simp add: decrypt_password_def encrypt_password_def get_encryption_key_def
            fernet_decrypt_text_def)
    next
      case (Some data)
      from laws valid obtain token where
        tok: "bytes_decode L (fernet_encrypt L key_bytes entropy data) = Some token"
             "str_encode L token = Some (fernet_encrypt L key_bytes entropy data)"
        unfolding fernet_laws_def by blast
      from laws valid have dec:
        "fernet_decrypt L key_bytes (fernet_encrypt L key_bytes entropy data) = Some data"
        unfolding fernet_laws_def by blast
      from laws Some have plain: "bytes_decode L data = Some password"
        unfolding fernet_laws_def by blast
      from key kb valid Some tok dec plain show ?thesis
        by (simp add: decrypt_password_def encrypt_password_def get_encryption_key_def
            fernet_decrypt_text_def)
    qed
  qed
qed

text \<open>
  What communicationapp's \<open>decrypt_password\<close> returns is a decryption under the
  configured key, never its argument passed through.
\<close>

lemma communicationapp_decrypt_genuine:
  assumes "communicationapp_decrypt_password L env_key enc_password = Inr password"
  shows "\<exists>key_bytes. str_encode L env_key = Some key_bytes
           \<and> fernet_decrypt_text L key_bytes enc_password = Some password"
  using assms
  by (auto simp: communicationapp_decrypt_password_def split: if_splits option.splits)

text \<open>
  C5, as stated, fails for \<open>decrypt_password\<close> of api/utils.py: on a text that is no
  token its \<^verbatim>\<open>except\<close> clause returns the text (\<^verbatim>\<open>return encrypted_password  # Return
  original if decryption fails\<close>).
\<close>

theorem api_decrypt_passes_through:
  "fernet_decrypt demo_fernet ''MDEyMzQ1Njc4OWFiY2RlZjAxMjM0NTY3ODlhYmNkZWY='' ''not-a-token''
     = None
   \<and> decrypt_password demo_fernet demo_settings ''not-a-token'' = ''not-a-token''"
  by (simp add: decrypt_password_def demo_settings_def demo_fernet_def fernet_decrypt_text_def)

text \<open>
  C5, amended. Take a ciphertext whose Fernet decryption fails under the configured key
  (it is malformed, corrupt, or made under another key). \<open>decrypt_password\<close> of
  communicationapp/utils.py, under its key \<^verbatim>\<open>DB_ENCRYPTION_KEY\<close>, fails with the
  RuntimeError \<^verbatim>\<open>Fernet decrypt failed: \<close> followed by the text of the exception, and
  does not return its input. \<open>decrypt_password\<close> of api/utils.py, under the primary key
  or, when none is configured, under the legacy key cut from \<^verbatim>\<open>SECRET_KEY\<close>, returns
  the ciphertext unchanged.
\<close>

theorem decrypt_on_rejected_ciphertext:
  assumes "env_key \<noteq> []"
    and "str_encode L env_key = Some app_key"
    and "fernet_decrypt_text L app_key ciphertext = None"
    and "(DB_ENCRYPTION_KEY S = Some key \<and> key \<noteq> [] \<and> str_encode L key = Some api_key)
       \<or> ((DB_ENCRYPTION_KEY S = None \<or> DB_ENCRYPTION_KEY S = Some [])
            \<and> str_encode L (take 32 (SECRET_KEY S)) = Some api_key)"
    and "fernet_decrypt_text L api_key ciphertext = None"
  shows "communicationapp_decrypt_password L env_key ciphertext
           = Inl (RuntimeError
                    (''Fernet decrypt failed: '' @ exception_text L env_key ciphertext))
       \<and> decrypt_password L S ciphertext = ciphertext"
proof
  from assms(1-3)
  show "communicationapp_decrypt_password L env_key ciphertext
          = Inl (RuntimeError
                   (''Fernet decrypt failed: '' @ exception_text L env_key ciphertext))"
    by (simp add: communicationapp_decrypt_password_def)
next
  from assms(4) show "decrypt_password L S ciphertext = ciphertext"
  proof (elim disjE conjE)
    assume "DB_ENCRYPTION_KEY S = Some key" "key \<noteq> []" "str_encode L key = Some api_key"
    with assms(5) show ?thesis by (simp add: decrypt_password_def)
  next
    assume "DB_ENCRYPTION_KEY S = None" "str_encode L (take 32 (SECRET_KEY S)) = Some api_key"
    with assms(5) show ?thesis by (simp add: decrypt_password_def)
  next
    assume "DB_ENCRYPTION_KEY S = Some []" "str_encode L (take 32 (SECRET_KEY S)) = Some api_key"
    with assms(5) show ?thesis by (simp add: decrypt_password_def)
  qed
qed

theorem decrypt_on_rejected_ciphertext_witness:
  "communicationapp_decrypt_password demo_fernet
     ''MDEyMzQ1Njc4OWFiY2RlZjAxMjM0NTY3ODlhYmNkZWY=''
     ''gAAAAAQUJDREVGR0hJSktMTU5PUFFSU1RVVldYWVphYmNkZWY=s3cret''
     = Inl (RuntimeError ''Fernet decrypt failed: '')
   \<and> decrypt_password demo_fernet demo_settings
       ''gAAAAAQUJDREVGR0hJSktMTU5PUFFSU1RVVldYWVphYmNkZWY=s3cret''
     = ''gAAAAAQUJDREVGR0hJSktMTU5PUFFSU1RVVldYWVphYmNkZWY=s3cret''
   \<and> fernet_decrypt_text demo_fernet ''QUJDREVGR0hJSktMTU5PUFFSU1RVVldYWVphYmNkZWY=''
       ''gAAAAAQUJDREVGR0hJSktMTU5PUFFSU1RVVldYWVphYmNkZWY=s3cret'' = Some ''s3cret''"
proof -
  have k: "''MDEyMzQ1Njc4OWFiY2RlZjAxMjM0NTY3ODlhYmNkZWY='' \<noteq> []" by simp
  have e: "str_encode demo_fernet ''MDEyMzQ1Njc4OWFiY2RlZjAxMjM0NTY3ODlhYmNkZWY=''
             = Some ''MDEyMzQ1Njc4OWFiY2RlZjAxMjM0NTY3ODlhYmNkZWY=''"
    by (simp add: demo_fernet_def)
  have s: "(DB_ENCRYPTION_KEY demo_settings = Some ''MDEyMzQ1Njc4OWFiY2RlZjAxMjM0NTY3ODlhYmNkZWY=''
              \<and> ''MDEyMzQ1Njc4OWFiY2RlZjAxMjM0NTY3ODlhYmNkZWY='' \<noteq> []
              \<and> str_encode demo_fernet ''MDEyMzQ1Njc4OWFiY2RlZjAxMjM0NTY3ODlhYmNkZWY=''
                  = Some ''MDEyMzQ1Njc4OWFiY2RlZjAxMjM0NTY3ODlhYmNkZWY='')
           \<or> ((DB_ENCRYPTION_KEY demo_settings = None \<or> DB_ENCRYPTION_KEY demo_settings = Some [])
                \<and> str_encode demo_fernet (take 32 (SECRET_KEY demo_settings))
                    = Some ''MDEyMzQ1Njc4OWFiY2RlZjAxMjM0NTY3ODlhYmNkZWY='')"
    by (simp add: demo_settings_def demo_fernet_def)
  have t: "exception_text demo_fernet ''MDEyMzQ1Njc4OWFiY2RlZjAxMjM0NTY3ODlhYmNkZWY=''
             ''gAAAAAQUJDREVGR0hJSktMTU5PUFFSU1RVVldYWVphYmNkZWY=s3cret'' = []"
    by (simp add: demo_fernet_def)
  have own: "fernet_decrypt_text demo_fernet ''QUJDREVGR0hJSktMTU5PUFFSU1RVVldYWVphYmNkZWY=''
       ''gAAAAAQUJDREVGR0hJSktMTU5PUFFSU1RVVldYWVphYmNkZWY=s3cret'' = Some ''s3cret''"
    by (simp add: fernet_decrypt_text_def demo_fernet_def)
  from decrypt_on_rejected_ciphertext
         [OF k e demo_fernet_rejects_foreign_token s demo_fernet_rejects_foreign_token]
       t own
  show ?thesis by simp
qed

text \<open>
  C6. With the primary key configured, \<open>decrypt_password\<close> of api/utils.py undoes
  \<open>encrypt_password\<close> on every non-empty password, for a library that keeps the laws
  of \<open>fernet_laws\<close>.
\<close>

theorem decrypt_encrypt_roundtrip:
  assumes "fernet_laws L" and "DB_ENCRYPTION_KEY S = Some key" and "key \<noteq> []"
    and "password \<noteq> []"
  shows "decrypt_password L S (encrypt_password L S entropy password) = password"
  using assms(1-3) by (rule decrypt_encrypt_any)

theorem decrypt_encrypt_roundtrip_witness:
  "encrypt_password demo_fernet demo_settings 7 ''s3cret''
     = ''gAAAAAMDEyMzQ1Njc4OWFiY2RlZjAxMjM0NTY3ODlhYmNkZWY=s3cret''
   \<and> decrypt_password demo_fernet demo_settings
       (encrypt_password demo_fernet demo_settings 7 ''s3cret'') = ''s3cret''"
proof -
  have k: "DB_ENCRYPTION_KEY demo_settings
             = Some ''MDEyMzQ1Njc4OWFiY2RlZjAxMjM0NTY3ODlhYmNkZWY=''"
    by (simp add: demo_settings_def)
  have e: "encrypt_password demo_fernet demo_settings 7 ''s3cret''
             = ''gAAAAAMDEyMzQ1Njc4OWFiY2RlZjAxMjM0NTY3ODlhYmNkZWY=s3cret''"
    by (simp add: encrypt_password_def get_encryption_key_def demo_settings_def
        demo_fernet_def)
  have r: "decrypt_password demo_fernet demo_settings
             (encrypt_password demo_fernet demo_settings 7 ''s3cret'') = ''s3cret''"
    by (rule decrypt_encrypt_roundtrip [OF demo_fernet_laws k]) simp_all
  from e r show ?thesis by (rule conjI)
qed

section \<open>Soft deletion properties\<close>

text \<open>
  C10. \<open>delete\<close> on a \<open>UserDatabase\<close> record removes no row: the instance and its
  row get \<open>is_deleted = True\<close> and \<open>deleted_at\<close> the current time, every other field
  and every other row stay as they were, and the row is still in the table. After
  \<open>hard_delete\<close> the table holds no row with the record's key.
\<close>

theorem soft_delete_keeps_row:
  assumes soft: "delete now self t = (self', Inr t')"
    and hard: "hard_delete self t = Inr (self'', t'')"
  shows "self' = self\<lparr>is_deleted := True, deleted_at := Some now\<rparr>
       \<and> next_pk t' = next_pk t
       \<and> list_all2 (\<lambda>r r'. r' = (if pk r = pk self
                                  then r\<lparr>is_deleted := True, deleted_at := Some now\<rparr> else r))
            (table_rows t) (table_rows t')
       \<and> filter (\<lambda>r. pk r = pk self) (table_rows t') \<noteq> []
       \<and> filter (\<lambda>r. pk r = pk self) (table_rows t'') = []"
proof -
  from soft have s1: "self' = self\<lparr>is_deleted := True, deleted_at := Some now\<rparr>"
    by (simp add: delete_def Let_def)
  from soft obtain i where i: "pk self = Some i"
    and ex: "filter (\<lambda>r. pk r = Some i) (table_rows t) \<noteq> []"
    and t': "t' = t\<lparr>table_rows :=
                   map (\<lambda>r. if pk r = Some i
                             then r\<lparr>is_deleted := True, deleted_at := Some now\<rparr> else r)
                       (table_rows t)\<rparr>"
    by (auto simp: delete_def save_update_fields_def Let_def split: option.splits if_splits)
  from t' have s2: "next_pk t' = next_pk t" by simp
  from t' i have s3:
    "list_all2 (\<lambda>r r'. r' = (if pk r = pk self
                               then r\<lparr>is_deleted := True, deleted_at := Some now\<rparr> else r))
       (table_rows t) (table_rows t')"
    by (simp add: list_all2_map2 list_all2_same)
  from ex obtain r where r: "r \<in> set (table_rows t)" "pk r = Some i"
    by (auto simp: filter_empty_conv)
  then have "r\<lparr>is_deleted := True, deleted_at := Some now\<rparr> \<in> set (table_rows t')"
    using t' by (auto simp: image_iff intro!: bexI [of _ r])
  then have s4: "filter (\<lambda>r. pk r = pk self) (table_rows t') \<noteq> []"
    using i r
    by (auto simp: filter_empty_conv
        intro!: bexI [of _ "r\<lparr>is_deleted := True, deleted_at := Some now\<rparr>"])
  from hard i have s5: "filter (\<lambda>r. pk r = pk self) (table_rows t'') = []"
    by (auto simp: hard_delete_def filter_empty_conv)
  from s1 s2 s3 s4 s5 show ?thesis by simp
qed

theorem soft_delete_keeps_row_witness:
  "delete 1000 (demo_row 2 99) demo_table =
     ((demo_row 2 99)\<lparr>is_deleted := True, deleted_at := Some 1000\<rparr>,
      Inr \<lparr>table_rows =
             [demo_row 1 7, (demo_row 2 99)\<lparr>is_deleted := True, deleted_at := Some 1000\<rparr>],
           next_pk = 3\<rparr>)
   \<and> hard_delete (demo_row 2 99) demo_table =
       Inr ((demo_row 2 99)\<lparr>pk := None\<rparr>, \<lparr>table_rows = [demo_row 1 7], next_pk = 3\<rparr>)
   \<and> filter (\<lambda>r. pk r = Some 2)
        [demo_row 1 7, (demo_row 2 99)\<lparr>is_deleted := True, deleted_at := Some 1000\<rparr>] \<noteq> []
   \<and> filter (\<lambda>r. pk r = Some 2) [demo_row 1 7] = []"
proof -
  have soft: "delete 1000 (demo_row 2 99) demo_table =
     ((demo_row 2 99)\<lparr>is_deleted := True, deleted_at := Some 1000\<rparr>,
      Inr \<lparr>table_rows =
             [demo_row 1 7, (demo_row 2 99)\<lparr>is_deleted := True, deleted_at := Some 1000\<rparr>],
           next_pk = 3\<rparr>)"
    by (simp add: delete_def save_update_fields_def demo_table_def demo_row_def Let_def)
  have hard: "hard_delete (demo_row 2 99) demo_table =
       Inr ((demo_row 2 99)\<lparr>pk := None\<rparr>, \<lparr>table_rows = [demo_row 1 7], next_pk = 3\<rparr>)"
    by (simp add: hard_delete_def demo_table_def demo_row_def)
  have p: "pk (demo_row 2 99) = Some 2" by (simp add: demo_row_def)
  from soft_delete_keeps_row [OF soft hard] soft hard p show ?thesis by simp
qed

section \<open>Registration properties\<close>

lemma py_str_42: "py_str 42 = ''42''"
  by (simp add: py_str_def str_of_nat.simps)

lemma demo_decrypt:
  "decrypt_password demo_fernet demo_settings
     ''gAAAAAMDEyMzQ1Njc4OWFiY2RlZjAxMjM0NTY3ODlhYmNkZWY=s3cret'' = ''s3cret''"
  by (simp add: decrypt_password_def demo_settings_def demo_fernet_def fernet_decrypt_text_def)

text \<open>
  The cleanup removes the alias from both dictionaries and no row from the table: the
  user ids of the rows are the same before and after it.
\<close>

lemma post_cleanup_effect:
  assumes "post_cleanup E db_alias entry msg w = (out, w')"
  shows "map user_id (table_rows (user_databases w')) = map user_id (table_rows (user_databases w))"
    and "out = Response status b \<Longrightarrow>
           DATABASES w' db_alias = None \<and> connections_databases w' db_alias = None"
  using assms
  by (auto simp: post_cleanup_def delete_def save_update_fields_def Let_def comp_def
      split: sum.splits option.splits if_splits)

lemma demo_post_42:
  "post demo_fernet demo_settings demo_env (Inr (demo_data 42)) demo_site =
     (Response 500 (Detail ''Migration failed: relation already exists''),
      \<lparr>user_databases =
         \<lparr>table_rows = [(demo_row 1 42)\<lparr>is_deleted := True, deleted_at := Some 1000\<rparr>],
          next_pk = 2\<rparr>,
       DATABASES = Map.empty, connections_databases = Map.empty\<rparr>)"
  by (simp add: post_def demo_data_def demo_site_def demo_env_def demo_row_def py_str_42
      demo_decrypt test_db_connection_def create_def add_db_alias_def post_cleanup_def
      delete_def save_update_fields_def Let_def)

text \<open>
  C1. The registration of tenant 42 on the empty site persists the record and fails at
  \<^verbatim>\<open>migrate\<close>. The cleanup calls \<^verbatim>\<open>entry.delete()\<close>, which is the soft delete of
  \<^verbatim>\<open>SoftDeleteModel\<close>: the alias is gone from both dictionaries, but the row of tenant
  42 is still in the table, and the repeated registration is rejected as a duplicate.
\<close>

theorem failed_migration_leaves_row:
  "fst (post demo_fernet demo_settings demo_env (Inr (demo_data 42)) demo_site)
     = Response 500 (Detail ''Migration failed: relation already exists'')
   \<and> filter (\<lambda>r. user_id r = 42)
        (table_rows (user_databases
           (snd (post demo_fernet demo_settings demo_env (Inr (demo_data 42)) demo_site))))
     = [(demo_row 1 42)\<lparr>is_deleted := True, deleted_at := Some 1000\<rparr>]
   \<and> DATABASES (snd (post demo_fernet demo_settings demo_env (Inr (demo_data 42)) demo_site))
        ''client_42'' = None
   \<and> connections_databases
        (snd (post demo_fernet demo_settings demo_env (Inr (demo_data 42)) demo_site))
        ''client_42'' = None
   \<and> fst (post demo_fernet demo_settings demo_env (Inr (demo_data 42))
        (snd (post demo_fernet demo_settings demo_env (Inr (demo_data 42)) demo_site)))
     = Response 400 (Detail ''DB entry already exists for user_id 42.'')"
  by (simp add: demo_post_42) (simp add: post_def demo_data_def demo_row_def py_str_42)

text \<open>
  C7. A registration for a tenant id that already has a row in the table ends in the
  response 400 \<^verbatim>\<open>DB entry already exists for user_id ...\<close> and leaves the whole state
  (table and both dictionaries) as it was.
\<close>

theorem duplicate_registration_rejected:
  assumes "filter (\<lambda>r. user_id r = d_user_id d) (table_rows (user_databases w)) \<noteq> []"
  shows "post L S E (Inr d) w =
           (Response 400
              (Detail (''DB entry already exists for user_id '' @ py_str (d_user_id d) @ ''.'')),
            w)"
  using assms by (simp add: post_def Let_def)

theorem duplicate_registration_rejected_witness:
  "post demo_fernet demo_settings demo_env (Inr (demo_data 99)) demo_site_99 =
     (Response 400 (Detail (''DB entry already exists for user_id '' @ py_str 99 @ ''.'')),
      demo_site_99)"
proof -
  have h: "filter (\<lambda>r. user_id r = d_user_id (demo_data 99))
             (table_rows (user_databases demo_site_99)) \<noteq> []"
    by (simp add: demo_data_def demo_site_99_def demo_site_def demo_row_def)
  have d: "d_user_id (demo_data 99) = 99" by (simp add: demo_data_def)
  from duplicate_registration_rejected [OF h, of demo_fernet demo_settings demo_env] d
  show ?thesis by simp
qed

section \<open>Request handling properties\<close>

text \<open>When the handler chain returns a response, the middleware has cleared the tenant.\<close>

lemma TenantMiddleware_call_clears:
  assumes "TenantMiddleware_call (Some handler) req c = (Inr response, c')"
  shows "get_current_tenant c' = None"
  using assms
  by (auto simp: TenantMiddleware_call_def process_response_def Let_def
      split: prod.splits sum.splits)

text \<open>The mixin clears the tenant whether the parent's method returns or raises.\<close>

lemma finalize_response_clears:
  "get_current_tenant (snd (finalize_response super_finalize_response response c)) = None"
  by (simp add: finalize_response_def split: prod.splits)

text \<open>
  C8. \<^verbatim>\<open>TenantMiddleware.__call__\<close> has no \<^verbatim>\<open>finally\<close>: for the request with the header
  \<^verbatim>\<open>X-Tenant: 42\<close> and a handler chain that raises, \<^verbatim>\<open>process_response\<close> is not
  reached and the tenant context is still bound to 42 when the call is left.
\<close>

theorem middleware_exception_keeps_tenant:
  "TenantMiddleware_call
     (Some (\<lambda>req c. (Inl (RuntimeError ''handler failed'') :: error + string, c)))
     demo_request unbound_ctx
   = (Inl (RuntimeError ''handler failed''),
      \<lparr>current_tenant = Some ''42'', thread_local_tenant = Some ''42''\<rparr>)
   \<and> get_current_tenant (snd (TenantMiddleware_call
        (Some (\<lambda>req c. (Inl (RuntimeError ''handler failed'') :: error + string, c)))
        demo_request unbound_ctx)) = Some ''42''"
  by (simp add: TenantMiddleware_call_def process_request_def demo_request_def py_or_def
      set_current_tenant_def unbound_ctx_def get_current_tenant_def Let_def)

end
